theory Spec2Isabelle
  imports
    Main
    "HOL-Library.Char_ord"
    "HOL-Library.List_Lexorder"
    "HOL-Library.Multiset"
    "HOL-Library.Sublist"
begin

section \<open>Python strings\<close>

text \<open>
  A Python \<^verbatim>\<open>str\<close> is modelled as a \<^typ>\<open>string\<close>, each \<^typ>\<open>char\<close> read as one code
  point in the range U+0000..U+00FF. The order on \<^typ>\<open>string\<close> (theories \<open>Char_ord\<close> and
  \<open>List_Lexorder\<close>) is the lexicographic order on code points, which is how Python compares
  strings and what \<^verbatim>\<open>sorted\<close> uses.
\<close>

definition whitespace :: "char list" where
  \<comment> \<open>the code points below U+0100 for which \<^verbatim>\<open>str.isspace\<close> holds; the same set is
      what \<^verbatim>\<open>\s\<close> matches in a \<^verbatim>\<open>str\<close> pattern\<close>
  "whitespace = [CHR 0x09, CHR 0x0A, CHR 0x0B, CHR 0x0C, CHR 0x0D, CHR 0x1C, CHR 0x1D,
                 CHR 0x1E, CHR 0x1F, CHR 0x20, CHR 0x85, CHR 0xA0]"

definition isspace :: "char \<Rightarrow> bool" where
  "isspace c \<longleftrightarrow> c \<in> set whitespace"

definition lstrip_chars :: "char list \<Rightarrow> string \<Rightarrow> string" where
  \<comment> \<open>\<^verbatim>\<open>s.lstrip(chars)\<close>\<close>
  "lstrip_chars chars s = dropWhile (\<lambda>c. c \<in> set chars) s"

definition rstrip_chars :: "char list \<Rightarrow> string \<Rightarrow> string" where
  \<comment> \<open>\<^verbatim>\<open>s.rstrip(chars)\<close>\<close>
  "rstrip_chars chars s = rev (dropWhile (\<lambda>c. c \<in> set chars) (rev s))"

definition strip_chars :: "char list \<Rightarrow> string \<Rightarrow> string" where
  \<comment> \<open>\<^verbatim>\<open>s.strip(chars)\<close>\<close>
  "strip_chars chars s = lstrip_chars chars (rstrip_chars chars s)"

definition strip :: "string \<Rightarrow> string" where
  \<comment> \<open>\<^verbatim>\<open>s.strip()\<close>\<close>
  "strip s = strip_chars whitespace s"

definition startswith :: "string \<Rightarrow> string \<Rightarrow> bool" where
  \<comment> \<open>\<^verbatim>\<open>s.startswith(p)\<close>\<close>
  "startswith s p \<longleftrightarrow> take (length p) s = p"

definition endswith :: "string \<Rightarrow> string \<Rightarrow> bool" where
  \<comment> \<open>\<^verbatim>\<open>s.endswith(p)\<close>\<close>
  "endswith s p \<longleftrightarrow> length p \<le> length s \<and> drop (length s - length p) s = p"

fun split_on :: "char \<Rightarrow> string \<Rightarrow> string list" where
  \<comment> \<open>\<^verbatim>\<open>s.split(sep)\<close> for a separator of one character: never an empty list\<close>
  "split_on sep [] = [[]]"
| "split_on sep (c # cs) =
     (if c = sep then [] # split_on sep cs
      else (case split_on sep cs of
              [] \<Rightarrow> [[c]]
            | w # ws \<Rightarrow> (c # w) # ws))"

fun py_replace :: "string \<Rightarrow> string \<Rightarrow> string \<Rightarrow> string" where
  \<comment> \<open>\<^verbatim>\<open>s.replace(old, new)\<close>: every occurrence of \<open>old\<close>, found from the left
      without overlap, gives way to \<open>new\<close>\<close>
  "py_replace old new [] = (if old = [] then new else [])"
| "py_replace old new (c # cs) =
     (if old = [] then new @ c # py_replace old new cs
      else if startswith (c # cs) old
        then new @ py_replace old new (drop (length old) (c # cs))
      else c # py_replace old new cs)"

definition removesuffix :: "string \<Rightarrow> string \<Rightarrow> string" where
  \<comment> \<open>\<^verbatim>\<open>s.removesuffix(suffix)\<close>\<close>
  "removesuffix s suf =
     (if suf \<noteq> [] \<and> endswith s suf then take (length s - length suf) s else s)"

definition basename :: "string \<Rightarrow> string" where
  \<comment> \<open>\<^verbatim>\<open>os.path.basename\<close> (POSIX): what follows the last slash\<close>
  "basename p = rev (takeWhile (\<lambda>c. c \<noteq> CHR ''/'') (rev p))"

definition upper_letters :: "char list" where
  "upper_letters = ''ABCDEFGHIJKLMNOPQRSTUVWXYZ'' @
     [CHR 0xC0, CHR 0xC1, CHR 0xC2, CHR 0xC3, CHR 0xC4, CHR 0xC5, CHR 0xC6, CHR 0xC7,
      CHR 0xC8, CHR 0xC9, CHR 0xCA, CHR 0xCB, CHR 0xCC, CHR 0xCD, CHR 0xCE, CHR 0xCF,
      CHR 0xD0, CHR 0xD1, CHR 0xD2, CHR 0xD3, CHR 0xD4, CHR 0xD5, CHR 0xD6,
      CHR 0xD8, CHR 0xD9, CHR 0xDA, CHR 0xDB, CHR 0xDC, CHR 0xDD, CHR 0xDE]"

definition lower_letters :: "char list" where
  "lower_letters = ''abcdefghijklmnopqrstuvwxyz'' @
     [CHR 0xE0, CHR 0xE1, CHR 0xE2, CHR 0xE3, CHR 0xE4, CHR 0xE5, CHR 0xE6, CHR 0xE7,
      CHR 0xE8, CHR 0xE9, CHR 0xEA, CHR 0xEB, CHR 0xEC, CHR 0xED, CHR 0xEE, CHR 0xEF,
      CHR 0xF0, CHR 0xF1, CHR 0xF2, CHR 0xF3, CHR 0xF4, CHR 0xF5, CHR 0xF6,
      CHR 0xF8, CHR 0xF9, CHR 0xFA, CHR 0xFB, CHR 0xFC, CHR 0xFD, CHR 0xFE]"

definition lower :: "string \<Rightarrow> string" where
  \<comment> \<open>\<^verbatim>\<open>s.lower()\<close> on code points below U+0100\<close>
  "lower s = map (\<lambda>c. case map_of (zip upper_letters lower_letters) c of
                          None \<Rightarrow> c | Some d \<Rightarrow> d) s"

section \<open>Exceptions\<close>

datatype exn =
    ValueError string
  | AttributeError string
  | BuilderError string

fun exn_str :: "exn \<Rightarrow> string" where
  \<comment> \<open>\<^verbatim>\<open>str(e)\<close>\<close>
  "exn_str (ValueError m) = m"
| "exn_str (AttributeError m) = m"
| "exn_str (BuilderError m) = m"

section \<open>Document keys and service ids\<close>

definition doc_and_filename_from_path :: "string \<Rightarrow> string \<times> string" where
  "doc_and_filename_from_path p =
     (let parts = split_on CHR ''/'' (strip p) in
      if length parts = 1 then (''root'', last parts)
      else if length parts \<ge> 2 then (parts ! (length parts - 2), last parts)
      else (''root'', p))"

definition build_service_id :: "string \<Rightarrow> string \<Rightarrow> string \<Rightarrow> exn + string" where
  "build_service_id iiif_base project_segment path0 =
     (let path = strip path0 in
      if startswith path ''http://'' \<or> startswith path ''https://''
        then Inr (py_replace ''/info.json'' '''' (rstrip_chars ''/'' path))
      else if iiif_base = []
        then Inl (ValueError (''No IIIF_IMAGE_BASE provided and path is not a URL: '' @ path))
      else
        let filename = basename path;
            iiif_base = rstrip_chars ''/'' iiif_base;
            project_segment = strip_chars ''/'' project_segment;
            service = (if project_segment \<noteq> []
                       then iiif_base @ ''/'' @ project_segment @ ''/'' @ filename
                       else iiif_base @ ''/'' @ filename)
        in Inr (rstrip_chars ''/'' service))"

definition download_base_url :: "string \<Rightarrow> string" where
  \<comment> \<open>the expression of \<^verbatim>\<open>download_images\<close> in the upload script that removes the same
      suffix from a service id: \<^verbatim>\<open>service_id.rstrip('/').removesuffix('/info.json')\<close>\<close>
  "download_base_url service_id = removesuffix (rstrip_chars ''/'' service_id) ''/info.json''"

section \<open>Grouping paths into documents\<close>

fun dict_append :: "(string \<times> string list) list \<Rightarrow> string \<Rightarrow> string \<Rightarrow> (string \<times> string list) list" where
  \<comment> \<open>\<^verbatim>\<open>grouped[doc].append(p)\<close> on a \<^verbatim>\<open>defaultdict(list)\<close>, the dictionary kept as the
      list of its items in insertion order\<close>
  "dict_append [] doc p = [(doc, [p])]"
| "dict_append ((k, ps) # grouped) doc p =
     (if k = doc then (k, ps @ [p]) # grouped else (k, ps) # dict_append grouped doc p)"

definition group_paths :: "string list \<Rightarrow> (string \<times> string list) list" where
  \<comment> \<open>the grouping loop of \<^verbatim>\<open>main\<close>\<close>
  "group_paths paths =
     foldl (\<lambda>grouped p. dict_append grouped (fst (doc_and_filename_from_path p)) p) [] paths"

section \<open>Parsed JSON values\<close>

text \<open>
  The value that \<^verbatim>\<open>r.json()\<close> returns. A Python \<^verbatim>\<open>float\<close> is either \<open>m \<sqdot> 2\<^sup>e\<close> for
  integers \<open>m\<close> and \<open>e\<close>, an infinity or a NaN. A dictionary is the list of its items; a
  lookup takes the first binding of a key.
\<close>

datatype pyfloat = Finite int int | PosInf | NegInf | NaN

datatype json =
    JNull
  | JBool bool
  | JInt int
  | JFloat pyfloat
  | JStr string
  | JArr "json list"
  | JObj "(string \<times> json) list"

fun truthy :: "json \<Rightarrow> bool" where
  \<comment> \<open>\<^verbatim>\<open>bool(v)\<close>\<close>
  "truthy JNull = False"
| "truthy (JBool b) = b"
| "truthy (JInt n) = (n \<noteq> 0)"
| "truthy (JFloat (Finite m e)) = (m \<noteq> 0)"
| "truthy (JFloat _) = True"
| "truthy (JStr s) = (s \<noteq> [])"
| "truthy (JArr xs) = (xs \<noteq> [])"
| "truthy (JObj kvs) = (kvs \<noteq> [])"

definition dict_get :: "(string \<times> json) list \<Rightarrow> string \<Rightarrow> json \<Rightarrow> json" where
  \<comment> \<open>\<^verbatim>\<open>d.get(key, default)\<close>; \<^verbatim>\<open>d.get(key)\<close> is \<open>dict_get d key JNull\<close>\<close>
  "dict_get d key dflt = (case map_of d key of None \<Rightarrow> dflt | Some v \<Rightarrow> v)"

fun type_name :: "json \<Rightarrow> string" where
  \<comment> \<open>\<^verbatim>\<open>type(v).__name__\<close>\<close>
  "type_name JNull = ''NoneType''"
| "type_name (JBool _) = ''bool''"
| "type_name (JInt _) = ''int''"
| "type_name (JFloat _) = ''float''"
| "type_name (JStr _) = ''str''"
| "type_name (JArr _) = ''list''"
| "type_name (JObj _) = ''dict''"

subsection \<open>Decimal numerals\<close>

definition digit_chars :: "char list" where
  "digit_chars = ''0123456789''"

fun str_nat :: "nat \<Rightarrow> string" where
  \<comment> \<open>\<^verbatim>\<open>str(n)\<close> for \<open>n \<ge> 0\<close>\<close>
  "str_nat n = (if n < 10 then [digit_chars ! n] else str_nat (n div 10) @ [digit_chars ! (n mod 10)])"

declare str_nat.simps [simp del]

definition str_int :: "int \<Rightarrow> string" where
  \<comment> \<open>\<^verbatim>\<open>str(n)\<close>\<close>
  "str_int n = (if n < 0 then CHR ''-'' # str_nat (nat (- n)) else str_nat (nat n))"

definition zfill :: "nat \<Rightarrow> string \<Rightarrow> string" where
  \<comment> \<open>\<^verbatim>\<open>s.zfill(width)\<close> for a string without a sign\<close>
  "zfill width s = replicate (width - length s) CHR ''0'' @ s"

definition digit_value :: "char \<Rightarrow> nat option" where
  "digit_value c = map_of (zip digit_chars [0 ..< 10]) c"

definition nat_of_digits :: "string \<Rightarrow> nat option" where
  \<comment> \<open>the digits of a Python integer literal in base ten: groups of digits, a single
      underscore between two groups\<close>
  "nat_of_digits s =
     (let groups = split_on CHR ''_'' s in
      if list_all (\<lambda>g. g \<noteq> [] \<and> list_all (\<lambda>c. digit_value c \<noteq> None) g) groups
      then Some (foldl (\<lambda>a c. 10 * a + the (digit_value c)) 0 (concat groups))
      else None)"

definition int_whitespace :: "char list" where
  \<comment> \<open>the characters that \<^verbatim>\<open>int\<close> skips around a numeral: the whitespace of ASCII (tab,
      line feed, vertical tab, form feed, carriage return, space) and, above U+007F, the
      characters of \<^verbatim>\<open>str.isspace\<close>; the separators U+001C to U+001F, which \<^verbatim>\<open>str.strip\<close>
      removes, are not among them\<close>
  "int_whitespace = [CHR 0x09, CHR 0x0A, CHR 0x0B, CHR 0x0C, CHR 0x0D, CHR 0x20, CHR 0x85, CHR 0xA0]"

definition max_str_digits :: nat where
  \<comment> \<open>\<^verbatim>\<open>sys.int_max_str_digits\<close>, which the script leaves at its default\<close>
  "max_str_digits = 4300"

definition int_of_str :: "string \<Rightarrow> int option" where
  \<comment> \<open>\<^verbatim>\<open>int(s)\<close> for a string, \<open>None\<close> where it raises \<^verbatim>\<open>ValueError\<close>: for a text that is
      no numeral, and for a numeral of more than \<open>max_str_digits\<close> digits (sign, underscores
      and the whitespace around not counted)\<close>
  "int_of_str s =
     (case strip_chars int_whitespace s of
        [] \<Rightarrow> None
      | c # cs \<Rightarrow>
          let digits = (if c = CHR ''-'' \<or> c = CHR ''+'' then cs else c # cs) in
          if length (filter (\<lambda>x. x \<noteq> CHR ''_'') digits) > max_str_digits then None
          else if c = CHR ''-'' then map_option (\<lambda>n. - int n) (nat_of_digits digits)
          else map_option int (nat_of_digits digits))"

fun py_int :: "json \<Rightarrow> int option" where
  \<comment> \<open>\<^verbatim>\<open>int(v)\<close>, \<open>None\<close> where it raises; a float is truncated towards zero\<close>
  "py_int (JInt n) = Some n"
| "py_int (JBool b) = Some (if b then 1 else 0)"
| "py_int (JFloat (Finite m e)) =
     Some (if e \<ge> 0 then m * 2 ^ nat e else sgn m * (\<bar>m\<bar> div 2 ^ nat (- e)))"
| "py_int (JFloat _) = None"
| "py_int (JStr s) = int_of_str s"
| "py_int JNull = None"
| "py_int (JArr _) = None"
| "py_int (JObj _) = None"

definition safe_int :: "json \<Rightarrow> int \<Rightarrow> int" where
  "safe_int v dflt = (case py_int v of Some n \<Rightarrow> n | None \<Rightarrow> dflt)"

section \<open>The dimension fetcher\<close>

text \<open>
  The session is the network as the run sees it: for the URL of a request, either the
  exception that one of \<^verbatim>\<open>session.get\<close>, \<^verbatim>\<open>raise_for_status\<close> and \<^verbatim>\<open>r.json\<close> raises, or the
  parsed body. An exception carries its message and, when it has a response attached,
  the status code of that response. The session is a function: within a run, two requests
  for one URL get the same answer.
\<close>

record http_error =
  err_msg :: string
  err_response :: "int option"

type_synonym session = "string \<Rightarrow> http_error + json"

definition response_truthy :: "int \<Rightarrow> bool" where
  \<comment> \<open>\<^verbatim>\<open>bool(response)\<close> is \<^verbatim>\<open>response.ok\<close>: the status is no client or server error\<close>
  "response_truthy status_code \<longleftrightarrow> \<not> (400 \<le> status_code \<and> status_code < 600)"

definition fetch_info_json :: "string \<Rightarrow> session \<Rightarrow> json" where
  "fetch_info_json service_id session =
     (let info_url = rstrip_chars ''/'' service_id @ ''/info.json'' in
      case session info_url of
        Inr body \<Rightarrow> body
      | Inl e \<Rightarrow>
          let status = (case err_response e of
                          None \<Rightarrow> JNull
                        | Some status_code \<Rightarrow>
                            if response_truthy status_code \<and> status_code \<noteq> 0
                            then JInt status_code else JNull)
          in JObj [(''error'', JStr (err_msg e)), (''status_code'', status),
                   (''info_url'', JStr info_url)])"

section \<open>The manifest builder\<close>

text \<open>
  The manifest is built with the classes of a presentation library that is no part of
  the repository. The records below hold what the calls of \<^verbatim>\<open>make_manifest_for_doc\<close> set.
  A canvas gets at most one annotation page, a page at most one annotation, a body at
  most one service; an \<^verbatim>\<open>add_..._to_items\<close> call appends the new object to its parent at
  once and returns it, and the later setters change it in place.
\<close>

record service =
  s_id :: "string option"
  s_type :: "string option"
  s_profile :: "json option"

record body =
  b_id :: "string option"
  b_type :: "string option"
  b_format :: "string option"
  b_width :: "int option"
  b_height :: "int option"
  b_service :: "service list"

record annotation =
  a_id :: "string option"
  a_target :: "string option"
  a_motivation :: "string option"
  a_body :: body

record annopage =
  ap_id :: "string option"
  ap_items :: "annotation list"

record canvas =
  c_id :: "string option"
  c_width :: "int option"
  c_height :: "int option"
  c_label :: "(string \<times> string) list"
  c_items :: "annopage list"

record manifest =
  m_id :: "string option"
  m_label :: "(string \<times> string) list"
  m_behavior :: "string list"
  m_items :: "canvas list"

datatype lib_call =
    New_manifest
  | Manifest_set_id string
  | Manifest_add_label string string
  | Manifest_add_behavior string
  | Add_canvas_to_items
  | Canvas_set_id string
  | Canvas_set_width int
  | Canvas_set_height int
  | Canvas_add_label string string
  | Add_annotationpage_to_items
  | Annopage_set_id string
  | Add_annotation_to_items "string option"
  | Annotation_set_id string
  | Annotation_set_motivation string
  | Body_set_id string
  | Body_set_type string
  | Body_set_format string
  | Body_set_width int
  | Body_set_height int
  | Body_add_service
  | Service_set_id string
  | Service_set_type string
  | Service_set_profile json

text \<open>
  What the run does not decide is a parameter:
  \<^item> \<open>raises\<close>: for the value of the library's \<^verbatim>\<open>BASE_URL\<close> and a call with its arguments
    (an id given by \<^verbatim>\<open>extendbase_url\<close> is the part after the base), the message of the
    exception that the call raises, if it raises one;
  \<^item> \<open>json_dumps\<close>: the text of a manifest, or (\<open>Inl\<close>) the message of the exception that
    \<^verbatim>\<open>manifest.json_dumps()\<close> raises;
  \<^item> \<open>as_completed\<close>: the order in which the submitted fetches complete, as a
    rearrangement of the submitted jobs;
  \<^item> \<open>repr\<close>: the text that an f-string gives a float, a list or a dictionary.
\<close>

record env =
  raises :: "string \<Rightarrow> lib_call \<Rightarrow> string option"
  json_dumps :: "manifest \<Rightarrow> string + string"
  as_completed :: "(string \<times> string) list \<Rightarrow> (string \<times> string) list"
  repr :: "json \<Rightarrow> string"

fun py_str :: "(json \<Rightarrow> string) \<Rightarrow> json \<Rightarrow> string" where
  \<comment> \<open>a value inside an f-string\<close>
  "py_str r (JStr s) = s"
| "py_str r (JInt n) = str_int n"
| "py_str r (JBool b) = (if b then ''True'' else ''False'')"
| "py_str r JNull = ''None''"
| "py_str r v = r v"

fun run_calls :: "(lib_call \<Rightarrow> string option) \<Rightarrow> ('a \<Rightarrow> lib_call \<times> 'a) list \<Rightarrow> 'a \<Rightarrow> 'a \<times> string option" where
  \<comment> \<open>library calls on one object, in sequence: each element gives, for the object as it
      is, the call and the object after the call; the first call that raises ends the
      sequence and leaves the object as the earlier calls made it\<close>
  "run_calls r [] x = (x, None)"
| "run_calls r (f # fs) x =
     (case r (fst (f x)) of
        Some e \<Rightarrow> (x, Some e)
      | None \<Rightarrow> run_calls r fs (snd (f x)))"

definition upd_last :: "('a \<Rightarrow> 'a) \<Rightarrow> 'a list \<Rightarrow> 'a list" where
  \<comment> \<open>a change to the object that was appended last\<close>
  "upd_last f xs = (case rev xs of [] \<Rightarrow> [] | x # r \<Rightarrow> rev r @ [f x])"

definition on_page :: "(annopage \<Rightarrow> annopage) \<Rightarrow> canvas \<Rightarrow> canvas" where
  "on_page f c = c\<lparr>c_items := upd_last f (c_items c)\<rparr>"

definition on_annotation :: "(annotation \<Rightarrow> annotation) \<Rightarrow> canvas \<Rightarrow> canvas" where
  "on_annotation f = on_page (\<lambda>pg. pg\<lparr>ap_items := upd_last f (ap_items pg)\<rparr>)"

definition on_body :: "(body \<Rightarrow> body) \<Rightarrow> canvas \<Rightarrow> canvas" where
  "on_body f = on_annotation (\<lambda>a. a\<lparr>a_body := f (a_body a)\<rparr>)"

definition on_service :: "(service \<Rightarrow> service) \<Rightarrow> canvas \<Rightarrow> canvas" where
  "on_service f = on_body (\<lambda>b. b\<lparr>b_service := upd_last f (b_service b)\<rparr>)"

definition new_manifest :: manifest where
  "new_manifest = \<lparr>m_id = None, m_label = [], m_behavior = [], m_items = []\<rparr>"

definition new_canvas :: canvas where
  "new_canvas = \<lparr>c_id = None, c_width = None, c_height = None, c_label = [], c_items = []\<rparr>"

definition new_annopage :: annopage where
  "new_annopage = \<lparr>ap_id = None, ap_items = []\<rparr>"

definition new_body :: body where
  "new_body = \<lparr>b_id = None, b_type = None, b_format = None, b_width = None, b_height = None,
                b_service = []\<rparr>"

definition new_annotation :: "string option \<Rightarrow> annotation" where
  "new_annotation target = \<lparr>a_id = None, a_target = target, a_motivation = None, a_body = new_body\<rparr>"

definition new_service :: service where
  "new_service = \<lparr>s_id = None, s_type = None, s_profile = None\<rparr>"

definition BASE_URL :: "string \<Rightarrow> string" where
  \<comment> \<open>the value that \<^verbatim>\<open>make_manifest_for_doc\<close> gives \<^verbatim>\<open>iiifpapi3.BASE_URL\<close>\<close>
  "BASE_URL iiif_presentation_base =
     (if iiif_presentation_base \<noteq> [] then rstrip_chars ''/'' iiif_presentation_base @ ''/''
      else ''https://example.org/iiif/'')"

definition manifest_calls :: "string \<Rightarrow> string \<Rightarrow> (manifest \<Rightarrow> lib_call \<times> manifest) list" where
  \<comment> \<open>Modelled from the spec: \<^verbatim>\<open>set_id(extendbase_url=x)\<close> of the library, which is not
      in the repository, sets the id to \<^verbatim>\<open>BASE_URL\<close> followed by \<open>x\<close> (``id
      \<^verbatim>\<open>{document_key}.json\<close> (relative to a configured base)'').\<close>
  "manifest_calls base doc =
     [\<lambda>m. (New_manifest, m),
      \<lambda>m. (Manifest_set_id (doc @ ''.json''), m\<lparr>m_id := Some (base @ doc @ ''.json'')\<rparr>),
      \<lambda>m. (Manifest_add_label ''en'' doc, m\<lparr>m_label := m_label m @ [(''en'', doc)]\<rparr>),
      \<lambda>m. (Manifest_add_behavior ''paged'', m\<lparr>m_behavior := m_behavior m @ [''paged'']\<rparr>)]"

definition media_type :: "(string \<times> json) list \<Rightarrow> string \<Rightarrow> string" where
  \<comment> \<open>the value of \<^verbatim>\<open>fmt\<close>\<close>
  "media_type info p =
     (let fmt = (case map_of info ''formats'' of
                   Some (JArr (x # xs)) \<Rightarrow> Some ''image/jpeg''
                 | _ \<Rightarrow> None)
      in case fmt of
           Some f \<Rightarrow> f
         | None \<Rightarrow>
             if endswith (lower p) ''.tif'' \<or> endswith (lower p) ''.tiff'' then ''image/tiff''
             else ''image/jpeg'')"

definition service_profile :: "(string \<times> json) list \<Rightarrow> json" where
  \<comment> \<open>the value of \<^verbatim>\<open>profile\<close>\<close>
  "service_profile info =
     (case dict_get info ''profile'' JNull of
        JStr s \<Rightarrow> JStr s
      | JArr (x # xs) \<Rightarrow> x
      | _ \<Rightarrow> JStr ''level1'')"

definition canvas_calls ::
  "string \<Rightarrow> nat \<Rightarrow> int \<Rightarrow> int \<Rightarrow> string \<Rightarrow> string \<Rightarrow> (string \<times> json) list \<Rightarrow> (canvas \<Rightarrow> lib_call \<times> canvas) list" where
  \<comment> \<open>the calls of the \<^verbatim>\<open>try\<close> block after \<^verbatim>\<open>add_canvas_to_items\<close>, in their order\<close>
  "canvas_calls base canvases_created width height p service_id info =
     [\<lambda>c. (Canvas_set_id (''canvas/p'' @ str_nat canvases_created),
            c\<lparr>c_id := Some (base @ ''canvas/p'' @ str_nat canvases_created)\<rparr>),
      \<lambda>c. (Canvas_set_width width, c\<lparr>c_width := Some width\<rparr>),
      \<lambda>c. (Canvas_set_height height, c\<lparr>c_height := Some height\<rparr>),
      \<lambda>c. (Canvas_add_label ''en'' (basename p), c\<lparr>c_label := c_label c @ [(''en'', basename p)]\<rparr>),
      \<lambda>c. (Add_annotationpage_to_items, c\<lparr>c_items := c_items c @ [new_annopage]\<rparr>),
      \<lambda>c. (Annopage_set_id (''page/p'' @ str_nat canvases_created @ ''/1''),
            on_page (\<lambda>pg. pg\<lparr>ap_id := Some (base @ ''page/p'' @ str_nat canvases_created @ ''/1'')\<rparr>) c),
      \<lambda>c. (Add_annotation_to_items (c_id c),
            on_page (\<lambda>pg. pg\<lparr>ap_items := ap_items pg @ [new_annotation (c_id c)]\<rparr>) c),
      \<lambda>c. (Annotation_set_id (''annotation/p'' @ zfill 4 (str_nat canvases_created) @ ''-image''),
            on_annotation (\<lambda>a. a\<lparr>a_id := Some (base @ ''annotation/p''
                                     @ zfill 4 (str_nat canvases_created) @ ''-image'')\<rparr>) c),
      \<lambda>c. (Annotation_set_motivation ''painting'',
            on_annotation (\<lambda>a. a\<lparr>a_motivation := Some ''painting''\<rparr>) c),
      \<lambda>c. (Body_set_id service_id, on_body (\<lambda>b. b\<lparr>b_id := Some service_id\<rparr>) c),
      \<lambda>c. (Body_set_type ''Image'', on_body (\<lambda>b. b\<lparr>b_type := Some ''Image''\<rparr>) c),
      \<lambda>c. (Body_set_format (media_type info p),
            on_body (\<lambda>b. b\<lparr>b_format := Some (media_type info p)\<rparr>) c),
      \<lambda>c. (Body_set_width width, on_body (\<lambda>b. b\<lparr>b_width := Some width\<rparr>) c),
      \<lambda>c. (Body_set_height height, on_body (\<lambda>b. b\<lparr>b_height := Some height\<rparr>) c),
      \<lambda>c. (Body_add_service, on_body (\<lambda>b. b\<lparr>b_service := b_service b @ [new_service]\<rparr>) c),
      \<lambda>c. (Service_set_id service_id, on_service (\<lambda>s. s\<lparr>s_id := Some service_id\<rparr>) c),
      \<lambda>c. (Service_set_type ''ImageService3'',
            on_service (\<lambda>s. s\<lparr>s_type := Some ''ImageService3''\<rparr>) c),
      \<lambda>c. (Service_set_profile (service_profile info),
            on_service (\<lambda>s. s\<lparr>s_profile := Some (service_profile info)\<rparr>) c)]"

section \<open>The manifest assembler\<close>

text \<open>
  \<^verbatim>\<open>make_manifest_for_doc\<close> in its three passes: the submission of the fetches, the
  collection of their results in the order of their completion, and the loop over the
  sorted items that builds the canvases. The number of workers of the pool has no part in
  the result and is left out. In the \<^verbatim>\<open>try\<close> block only the calls of the library can
  raise; the canvas that \<^verbatim>\<open>add_canvas_to_items\<close> has appended is the object that the
  later calls change, so the manifest holds it in the state that the last successful
  call left.
\<close>

type_synonym failures = "(string \<times> string) list"

definition submit_job :: "string \<Rightarrow> string \<Rightarrow> failures \<times> (string \<times> string) list \<Rightarrow> string \<Rightarrow> failures \<times> (string \<times> string) list" where
  \<comment> \<open>one round of the submission loop: the failures and the submitted jobs, a job being
      the pair \<^verbatim>\<open>(p, service_id)\<close> kept for its future\<close>
  "submit_job iiif_image_base project_segment st p =
     (case build_service_id iiif_image_base project_segment p of
        Inl e \<Rightarrow> (fst st @ [(p, ''service id build failed: '' @ exn_str e)], snd st)
      | Inr service_id \<Rightarrow> (fst st, snd st @ [(p, service_id)]))"

definition collect_results :: "session \<Rightarrow> (string \<times> string) list \<Rightarrow> (string \<rightharpoonup> json \<times> string)" where
  \<comment> \<open>the loop over \<^verbatim>\<open>as_completed(jobs)\<close>: \<^verbatim>\<open>results[p] = (info, service_id)\<close>\<close>
  "collect_results session completed =
     foldl (\<lambda>results job.
              results(fst job \<mapsto> (fetch_info_json (snd job) session, snd job)))
       Map.empty completed"

definition try_canvas ::
  "env \<Rightarrow> string \<Rightarrow> manifest \<times> nat \<times> failures \<Rightarrow> string \<Rightarrow> (string \<times> json) list \<Rightarrow> string \<Rightarrow> manifest \<times> nat \<times> failures" where
  \<comment> \<open>one item whose fetch gave the dictionary \<open>info\<close>: width and height, then the
      \<^verbatim>\<open>try\<close> block with its handler\<close>
  "try_canvas E base st p info service_id =
     (case st of (manifest, n, failures) \<Rightarrow>
      let width = safe_int (dict_get info ''width'' (JInt 0)) 0;
          height = safe_int (dict_get info ''height'' (JInt 0)) 0;
          canvases_created = n + 1
      in case raises E base Add_canvas_to_items of
           Some e \<Rightarrow>
             (manifest, canvases_created - 1,
              failures @ [(p, ''manifest/canvas creation error: '' @ e)])
         | None \<Rightarrow>
             (case run_calls (raises E base)
                     (canvas_calls base canvases_created width height p service_id info)
                     new_canvas of
                (canvas, None) \<Rightarrow>
                  (manifest\<lparr>m_items := m_items manifest @ [canvas]\<rparr>, canvases_created, failures)
              | (canvas, Some e) \<Rightarrow>
                  (manifest\<lparr>m_items := m_items manifest @ [canvas]\<rparr>, canvases_created - 1,
                   failures @ [(p, ''manifest/canvas creation error: '' @ e)])))"

fun process_results ::
  "env \<Rightarrow> string \<Rightarrow> (string \<rightharpoonup> json \<times> string) \<Rightarrow> string list \<Rightarrow> manifest \<times> nat \<times> failures \<Rightarrow> exn + manifest \<times> nat \<times> failures" where
  \<comment> \<open>the loop over the sorted items; \<open>Inl\<close> is an exception that nothing catches\<close>
  "process_results E base results [] st = Inr st"
| "process_results E base results (p # items) st =
     (case results p of
        None \<Rightarrow> process_results E base results items st
      | Some (info, service_id) \<Rightarrow>
          (case info of
             JObj d \<Rightarrow>
               if truthy (dict_get d ''error'' JNull)
               then process_results E base results items
                      (fst st, fst (snd st),
                       snd (snd st) @
                         [(p, ''info.json fetch failed for ''
                              @ py_str (repr E) (dict_get d ''info_url'' (JStr (service_id @ ''/info.json'')))
                              @ '': '' @ py_str (repr E) (dict_get d ''error'' JNull))])
               else process_results E base results items (try_canvas E base st p d service_id)
           | _ \<Rightarrow>
               Inl (AttributeError ([CHR 0x27] @ type_name info @ [CHR 0x27]
                                    @ '' object has no attribute '' @ [CHR 0x27] @ ''get'' @ [CHR 0x27]))))"

definition assemble ::
  "env \<Rightarrow> string \<Rightarrow> string list \<Rightarrow> string \<Rightarrow> string \<Rightarrow> string \<Rightarrow> session \<Rightarrow> exn + manifest \<times> nat \<times> failures" where
  \<comment> \<open>\<^verbatim>\<open>make_manifest_for_doc\<close> up to the serialization: the manifest object, the count and
      the failures\<close>
  "assemble E doc items iiif_image_base project_segment iiif_presentation_base session =
     (let items = sort items;
          base = BASE_URL iiif_presentation_base
      in case run_calls (raises E base) (manifest_calls base doc) new_manifest of
           (manifest, Some e) \<Rightarrow> Inl (BuilderError e)
         | (manifest, None) \<Rightarrow>
             let st = foldl (submit_job iiif_image_base project_segment) ([], []) items;
                 results = collect_results session (as_completed E (snd st))
             in process_results E base results items (manifest, 0, fst st))"

definition make_manifest_for_doc ::
  "env \<Rightarrow> string \<Rightarrow> string list \<Rightarrow> string \<Rightarrow> string \<Rightarrow> string \<Rightarrow> session \<Rightarrow> exn + string option \<times> nat \<times> failures" where
  "make_manifest_for_doc E doc items iiif_image_base project_segment iiif_presentation_base session =
     (case assemble E doc items iiif_image_base project_segment iiif_presentation_base session of
        Inl e \<Rightarrow> Inl e
      | Inr (manifest, canvases_created, failures) \<Rightarrow>
          (case json_dumps E manifest of
             Inr manifest_json \<Rightarrow> Inr (Some manifest_json, canvases_created, failures)
           | Inl e \<Rightarrow>
               Inr (None, canvases_created,
                    failures @ [(''manifest_dumps'', ''json_dumps failed: '' @ e)])))"

section \<open>The path parser\<close>

text \<open>
  The pattern \<^verbatim>\<open>^\s*([0-9a-fA-F]+)\s+(.+?)\s*$\<close>, matched from the start of the line with
  backtracking: one function for each part of the pattern, which takes the rest of the
  line and gives the second group of the first match that the search finds. A greedy
  repetition first takes one more character and falls back on what follows it in the
  pattern; the lazy one first tries what follows.
\<close>

definition ishex :: "char \<Rightarrow> bool" where
  "ishex c \<longleftrightarrow> c \<in> set ''0123456789abcdefABCDEF''"

fun re_end :: "string \<Rightarrow> bool" where
  \<comment> \<open>\<^verbatim>\<open>\s*$\<close>; the dollar matches at the end and before a newline that ends the line\<close>
  "re_end [] = True"
| "re_end (c # cs) = ((isspace c \<and> re_end cs) \<or> c # cs = [CHR 0x0A])"

fun re_path :: "string \<Rightarrow> string \<Rightarrow> string option" where
  \<comment> \<open>\<^verbatim>\<open>(.+?)\s*$\<close>, \<open>g\<close> the part of the group matched so far; the dot matches no newline\<close>
  "re_path g [] = None"
| "re_path g (c # cs) =
     (if c = CHR 0x0A then None
      else if re_end cs then Some (g @ [c])
      else re_path (g @ [c]) cs)"

fun re_sep :: "string \<Rightarrow> string option" where
  \<comment> \<open>the rest of \<^verbatim>\<open>\s+\<close> after its first character, then the path\<close>
  "re_sep [] = re_path [] []"
| "re_sep (c # cs) =
     (if isspace c
      then (case re_sep cs of Some g \<Rightarrow> Some g | None \<Rightarrow> re_path [] (c # cs))
      else re_path [] (c # cs))"

fun re_sep1 :: "string \<Rightarrow> string option" where
  \<comment> \<open>\<^verbatim>\<open>\s+(.+?)\s*$\<close>\<close>
  "re_sep1 [] = None"
| "re_sep1 (c # cs) = (if isspace c then re_sep cs else None)"

fun re_hex :: "string \<Rightarrow> string option" where
  \<comment> \<open>the rest of \<^verbatim>\<open>[0-9a-fA-F]+\<close> after its first character, then the separator\<close>
  "re_hex [] = re_sep1 []"
| "re_hex (c # cs) =
     (if ishex c
      then (case re_hex cs of Some g \<Rightarrow> Some g | None \<Rightarrow> re_sep1 (c # cs))
      else re_sep1 (c # cs))"

fun re_hex1 :: "string \<Rightarrow> string option" where
  \<comment> \<open>\<^verbatim>\<open>([0-9a-fA-F]+)\s+(.+?)\s*$\<close>\<close>
  "re_hex1 [] = None"
| "re_hex1 (c # cs) = (if ishex c then re_hex cs else None)"

fun line_re_match :: "string \<Rightarrow> string option" where
  \<comment> \<open>\<^verbatim>\<open>line_re.match(ln)\<close>: \<^verbatim>\<open>m.group(2)\<close> if there is a match\<close>
  "line_re_match [] = re_hex1 []"
| "line_re_match (c # cs) =
     (if isspace c
      then (case line_re_match cs of Some g \<Rightarrow> Some g | None \<Rightarrow> re_hex1 (c # cs))
      else re_hex1 (c # cs))"

definition parse_line :: "string list \<Rightarrow> string \<Rightarrow> string list" where
  \<comment> \<open>the body of the loop over the lines of the file\<close>
  "parse_line paths ln0 =
     (let ln = rstrip_chars [CHR 0x0A] ln0 in
      if strip ln = [] then paths
      else (case line_re_match ln of
              Some g \<Rightarrow> paths @ [g]
            | None \<Rightarrow> paths @ [strip ln]))"

definition parse_all_manifests :: "string list \<Rightarrow> string list" where
  \<comment> \<open>\<open>fh\<close>: the lines of the file, as the iteration over the file gives them\<close>
  "parse_all_manifests fh = foldl parse_line [] fh"

section \<open>The run\<close>

text \<open>
  \<^verbatim>\<open>main\<close> for an input file that exists. Writing a file and creating the output
  directory are taken to succeed. The report file and the console summary are printed
  from \<^verbatim>\<open>created_manifests\<close> and \<^verbatim>\<open>total_failures\<close>, line by line, and are not modelled
  as text.
\<close>

definition path_join :: "string \<Rightarrow> string \<Rightarrow> string" where
  \<comment> \<open>\<^verbatim>\<open>os.path.join(a, b)\<close> (POSIX)\<close>
  "path_join a b =
     (if startswith b ''/'' then b
      else if a = [] \<or> endswith a ''/'' then a @ b
      else a @ ''/'' @ b)"

record args =
  output_dir :: string
  iiif_image_base :: string
  project_segment :: string
  iiif_presentation_base :: string

text \<open>
  What \<^verbatim>\<open>main\<close> produces: the files written to the output directory, the two lists that
  the report file and the console summary are printed from, and \<^verbatim>\<open>report_lines\<close>.
\<close>

record run =
  files :: "(string \<times> string) list"
  created_manifests :: "(string \<times> string \<times> nat) list"
  total_failures :: "(string \<times> string \<times> string) list"
  report_lines :: "string list"

definition record_doc :: "args \<Rightarrow> run \<Rightarrow> string \<Rightarrow> string option \<times> nat \<times> failures \<Rightarrow> run" where
  \<comment> \<open>the body of the loop over the documents, after \<^verbatim>\<open>make_manifest_for_doc\<close> has
      returned\<close>
  "record_doc a r doc res =
     (case res of (manifest_json, created_count, failures) \<Rightarrow>
      let r1 = (case manifest_json of
                  Some (c # cs) \<Rightarrow>
                    let out_path = path_join (output_dir a) (doc @ ''.json'') in
                    r\<lparr>files := files r @ [(out_path, c # cs)],
                      created_manifests := created_manifests r @ [(doc, out_path, created_count)],
                      report_lines := report_lines r
                        @ [''- '' @ doc @ '': created '' @ str_nat created_count
                           @ '' canvases -> '' @ out_path]\<rparr>
                | _ \<Rightarrow>
                    r\<lparr>report_lines := report_lines r
                        @ [''- '' @ doc @ '': FAILED to create manifest (no json produced)'']\<rparr>)
      in if failures \<noteq> []
         then r1\<lparr>total_failures := total_failures r1 @ map (\<lambda>(p, msg). (doc, p, msg)) failures\<rparr>
         else r1)"

fun process_docs :: "env \<Rightarrow> args \<Rightarrow> session \<Rightarrow> (string \<times> string list) list \<Rightarrow> run \<Rightarrow> exn + run" where
  "process_docs E a session [] r = Inr r"
| "process_docs E a session ((doc, items) # docs) r =
     (case make_manifest_for_doc E doc items (iiif_image_base a) (project_segment a)
             (iiif_presentation_base a) session of
        Inl e \<Rightarrow> Inl e
      | Inr res \<Rightarrow> process_docs E a session docs (record_doc a r doc res))"

definition main :: "env \<Rightarrow> args \<Rightarrow> string list \<Rightarrow> session \<Rightarrow> exn + run" where
  \<comment> \<open>\<^verbatim>\<open>main\<close> for an input file that exists and has the lines \<open>fh\<close>\<close>
  "main E a fh session =
     (let paths = parse_all_manifests fh;
          grouped = group_paths paths
      in process_docs E a session (sort_key fst grouped)
           \<lparr>files = [], created_manifests = [], total_failures = [], report_lines = []\<rparr>)"

section \<open>Notions for the statements\<close>






definition image_formats :: "canvas \<Rightarrow> string option list" where
  \<comment> \<open>the \<^verbatim>\<open>format\<close> of the body of every annotation of a canvas\<close>
  "image_formats c = map (\<lambda>a. b_format (a_body a)) (concat (map ap_items (c_items c)))"



definition checksum_line :: "string \<Rightarrow> string \<Rightarrow> bool" where
  \<comment> \<open>the line is a checksum of hexadecimal digits, whitespace and the path \<open>g\<close>, with
      whitespace around; the path has no newline in it\<close>
  "checksum_line ln g \<longleftrightarrow>
     (\<exists>ws1 hex ws2 ws3.
        ln = ws1 @ hex @ ws2 @ g @ ws3
        \<and> list_all isspace ws1 \<and> hex \<noteq> [] \<and> list_all ishex hex
        \<and> ws2 \<noteq> [] \<and> list_all isspace ws2
        \<and> g \<noteq> [] \<and> CHR 0x0A \<notin> set g \<and> list_all isspace ws3)"

section \<open>Example runs\<close>

definition example_env :: env where
  \<comment> \<open>a library that raises nothing, fetches that complete in the reverse of the order
      of their submission\<close>
  "example_env = \<lparr>raises = (\<lambda>base call. None), json_dumps = (\<lambda>m. Inr ''{}''),
                   as_completed = rev, repr = (\<lambda>v. ''?'')\<rparr>"


definition example_args :: args where
  "example_args = \<lparr>output_dir = ''out'', iiif_image_base = ''http://i'', project_segment = '''',
                    iiif_presentation_base = ''''\<rparr>"

definition strict_env :: env where
  \<comment> \<open>a library whose \<^verbatim>\<open>set_width\<close> raises for the width 0\<close>
  "strict_env = example_env\<lparr>raises :=
     (\<lambda>base call. if call = Canvas_set_width 0 then Some ''width must be positive'' else None)\<rparr>"

definition no_width_session :: session where
  \<comment> \<open>the capability document of the image \<open>1\<close> has no width and no height\<close>
  "no_width_session =
     (\<lambda>url. if url = ''http://i/1/info.json'' then Inr (JObj [])
            else Inr (JObj [(''width'', JInt 1000), (''height'', JInt 2000)]))"

definition list_session :: session where
  \<comment> \<open>the request for the image \<open>1\<close> is answered with a JSON list\<close>
  "list_session =
     (\<lambda>url. if url = ''http://i/1/info.json'' then Inr (JArr [])
            else Inr (JObj [(''width'', JInt 1000), (''height'', JInt 2000)]))"




section \<open>Facts about strings and dictionaries\<close>

lemmas str_defs = strip_def strip_chars_def lstrip_chars_def rstrip_chars_def whitespace_def
  startswith_def endswith_def basename_def isspace_def removesuffix_def

lemma split_on_nonempty: "split_on sep s \<noteq> []"
  by (induction s) (auto split: list.splits)

lemma map_of_dict_append:
  "map_of (dict_append d k v) k' =
     (if k' = k then Some ((case map_of d k of None \<Rightarrow> [] | Some vs \<Rightarrow> vs) @ [v]) else map_of d k')"
  by (induction d k v rule: dict_append.induct) auto

lemma map_of_foldl_dict_append:
  "map_of (foldl (\<lambda>g p. dict_append g (f p) p) d ps) k =
     (case map_of d k of
        None \<Rightarrow> (if \<exists>p\<in>set ps. f p = k then Some (filter (\<lambda>p. f p = k) ps) else None)
      | Some vs \<Rightarrow> Some (vs @ filter (\<lambda>p. f p = k) ps))"
proof (induction ps arbitrary: d)
  case Nil
  then show ?case by (simp split: option.splits)
next
  case (Cons p ps)
  show ?case
    by (simp add: Cons.IH map_of_dict_append split: option.splits)
qed

lemma keys_dict_append: "fst ` set (dict_append d k v) = insert k (fst ` set d)"
  by (induction d k v rule: dict_append.induct) auto

lemma distinct_dict_append:
  "distinct (map fst d) \<Longrightarrow> distinct (map fst (dict_append d k v))"
  by (induction d k v rule: dict_append.induct) (auto simp: keys_dict_append)

lemma distinct_group_paths: "distinct (map fst (group_paths paths))"
proof -
  have "distinct (map fst d) \<Longrightarrow>
        distinct (map fst (foldl (\<lambda>g p. dict_append g (f p) p) d ps))" for d f and ps :: "string list"
    by (induction ps arbitrary: d) (auto simp: distinct_dict_append)
  then show ?thesis unfolding group_paths_def by simp
qed

lemma map_of_group_paths:
  "map_of (group_paths paths) k =
     (if \<exists>p\<in>set paths. fst (doc_and_filename_from_path p) = k
      then Some (filter (\<lambda>p. fst (doc_and_filename_from_path p) = k) paths) else None)"
  unfolding group_paths_def by (simp add: map_of_foldl_dict_append)

lemma doc_key:
  "fst (doc_and_filename_from_path p) =
     (let parts = split_on CHR ''/'' (strip p) in
      if length parts = 1 then ''root'' else parts ! (length parts - 2))"
proof -
  have "length (split_on CHR ''/'' (strip p)) \<ge> 1"
    using split_on_nonempty[of "CHR ''/''" "strip p"] by (simp add: Suc_le_eq)
  then show ?thesis
    by (auto simp: doc_and_filename_from_path_def Let_def)
qed

section \<open>The service-id resolver\<close>

text \<open>
  C5. A path in URL form in which \<^verbatim>\<open>/info.json\<close> occurs twice at the end, or in the middle:
  \<^verbatim>\<open>build_service_id\<close> removes every occurrence, where the upload script removes the
  suffix once.
\<close>

theorem build_service_id_removes_every_info_json:
  "build_service_id ''https://iiif.ub.unibe.ch/image/v3/'' ''ceresa''
      ''https://example.org/iiif/page1/info.json/info.json'' = Inr ''https://example.org/iiif/page1''
   \<and> download_base_url ''https://example.org/iiif/page1/info.json/info.json''
       = ''https://example.org/iiif/page1/info.json''
   \<and> build_service_id ''https://iiif.ub.unibe.ch/image/v3/'' ''ceresa''
       ''https://example.org/info.json/page1'' = Inr ''https://example.org/page1''"
  by (simp add: build_service_id_def download_base_url_def str_defs)

section \<open>Facts about the assembler\<close>


lemma run_calls_complete:
  "snd (run_calls r fs x) = None \<Longrightarrow> fst (run_calls r fs x) = fold (\<lambda>f y. snd (f y)) fs x"
  by (induction fs arbitrary: x) (auto split: option.splits)






lemma try_canvas_cases:
  "try_canvas E base (m, n, fs) p d sid =
     (case raises E base Add_canvas_to_items of
        Some e \<Rightarrow> (m, n, fs @ [(p, ''manifest/canvas creation error: '' @ e)])
      | None \<Rightarrow>
          (let rc = run_calls (raises E base)
                      (canvas_calls base (Suc n) (safe_int (dict_get d ''width'' (JInt 0)) 0)
                         (safe_int (dict_get d ''height'' (JInt 0)) 0) p sid d) new_canvas
           in (m\<lparr>m_items := m_items m @ [fst rc]\<rparr>,
               (if snd rc = None then Suc n else n),
               fs @ (case snd rc of None \<Rightarrow> []
                     | Some e \<Rightarrow> [(p, ''manifest/canvas creation error: '' @ e)]))))"
  by (simp add: try_canvas_def Let_def split: option.splits prod.splits)






section \<open>Canvas order\<close>



section \<open>Canvas indices\<close>

text \<open>
  C2. A document with two paths; the library raises in \<^verbatim>\<open>canvas.set_width\<close> for the first
  one, after \<^verbatim>\<open>add_canvas_to_items\<close> and \<^verbatim>\<open>canvas.set_id\<close>. The handler takes the count
  back, and the canvas that was begun stays in the manifest: the manifest has two canvases
  with the index 1, the first of them without label, size and image.
\<close>

theorem partial_canvas_stays_in_manifest:
  "(case assemble strict_env ''A'' [''A/1'', ''A/2''] ''http://i'' '''' '''' no_width_session of
      Inr (M, n, fs) \<Rightarrow>
        map c_id (m_items M) = [Some ''https://example.org/iiif/canvas/p1'',
                                Some ''https://example.org/iiif/canvas/p1'']
        \<and> map c_label (m_items M) = [[], [(''en'', ''2'')]]
        \<and> n = 1
        \<and> fs = [(''A/1'', ''manifest/canvas creation error: width must be positive'')]
    | Inl e \<Rightarrow> False)"
  by code_simp

section \<open>Capability data of an unexpected shape\<close>

text \<open>
  C3. The request for one image is answered with a JSON list. \<^verbatim>\<open>info.get('width', 0)\<close> is
  evaluated before the \<^verbatim>\<open>try\<close> block, so the \<^verbatim>\<open>AttributeError\<close> leaves
  \<^verbatim>\<open>make_manifest_for_doc\<close> and \<^verbatim>\<open>main\<close>: the sibling item and the sibling document are not
  processed.
\<close>

theorem list_body_aborts_the_run:
  "make_manifest_for_doc example_env ''A'' [''A/1'', ''A/2''] ''http://i'' '''' '''' list_session
     = Inl (AttributeError (CHR 0x27 # ''list'' @ CHR 0x27 # '' object has no attribute ''
                              @ CHR 0x27 # ''get'' @ [CHR 0x27]))
   \<and> main example_env example_args [''A/1'', ''A/2'', ''B/3''] list_session
     = Inl (AttributeError (CHR 0x27 # ''list'' @ CHR 0x27 # '' object has no attribute ''
                              @ CHR 0x27 # ''get'' @ [CHR 0x27]))"
  by code_simp

section \<open>A manifest that cannot be serialized\<close>


section \<open>Facts about the builder\<close>

lemma media_type_cases:
  "media_type info p =
     (if (endswith (lower p) ''.tif'' \<or> endswith (lower p) ''.tiff'')
         \<and> \<not> (\<exists>x xs. map_of info ''formats'' = Some (JArr (x # xs)))
      then ''image/tiff'' else ''image/jpeg'')"
  by (auto simp: media_type_def split: option.splits json.splits list.splits)

lemmas builder_defs = canvas_calls_def new_canvas_def new_annopage_def new_annotation_def
  new_body_def new_service_def on_page_def on_annotation_def on_body_def on_service_def upd_last_def

lemma complete_canvas_formats:
  "image_formats (fold (\<lambda>f y. snd (f y)) (canvas_calls base k w h p sid info) new_canvas)
     = [Some (media_type info p)]"
  by (simp add: builder_defs image_formats_def)



















section \<open>The media type of the image\<close>

text \<open>
  C8. The media type is \<^verbatim>\<open>image/tiff\<close> exactly when the path in lower case ends in
  \<^verbatim>\<open>.tif\<close> or \<^verbatim>\<open>.tiff\<close> and the capability document has no non-empty list under
  \<^verbatim>\<open>formats\<close>, and \<^verbatim>\<open>image/jpeg\<close> otherwise; when the \<^verbatim>\<open>try\<close> block succeeds for an item
  (the count goes up), the canvas appended last has one image body, with that format.
\<close>

theorem image_media_type:
  "media_type info p =
     (if (endswith (lower p) ''.tif'' \<or> endswith (lower p) ''.tiff'')
         \<and> \<not> (\<exists>x xs. map_of info ''formats'' = Some (JArr (x # xs)))
      then ''image/tiff'' else ''image/jpeg'')
   \<and> (try_canvas E base (m, n, fs) p info service_id = (m', Suc n, fs') \<longrightarrow>
        m_items m' \<noteq> [] \<and> butlast (m_items m') = m_items m
        \<and> image_formats (last (m_items m')) = [Some (media_type info p)])"
proof (intro conjI impI)
  assume t: "try_canvas E base (m, n, fs) p info service_id = (m', Suc n, fs')"
  let ?rc = "run_calls (raises E base)
               (canvas_calls base (Suc n) (safe_int (dict_get info ''width'' (JInt 0)) 0)
                  (safe_int (dict_get info ''height'' (JInt 0)) 0) p service_id info) new_canvas"
  from t have r: "raises E base Add_canvas_to_items = None"
    by (auto simp: try_canvas_cases split: option.splits)
  with t have m': "m' = m\<lparr>m_items := m_items m @ [fst ?rc]\<rparr>" and s: "snd ?rc = None"
    by (auto simp: try_canvas_cases Let_def split: if_splits)
  from m' show "m_items m' \<noteq> []" "butlast (m_items m') = m_items m"
    by simp_all
  from m' run_calls_complete[OF s] show "image_formats (last (m_items m')) = [Some (media_type info p)]"
    by (simp add: complete_canvas_formats)
qed (rule media_type_cases)

theorem image_media_type_witness:
  "media_type [] ''A/x.TIF'' = ''image/tiff''
   \<and> media_type [(''formats'', JArr [JStr ''jpg''])] ''A/x.TIF'' = ''image/jpeg''
   \<and> image_formats (last (m_items (fst (try_canvas example_env ''b/'' (new_manifest, 0, []) ''A/x.tiff'' [] ''s'')))) = [Some ''image/tiff'']"
proof -
  have t: "try_canvas example_env ''b/'' (new_manifest, 0, []) ''A/x.tiff'' [] ''s''
       = (fst (try_canvas example_env ''b/'' (new_manifest, 0, []) ''A/x.tiff'' [] ''s''), Suc 0, [])"
    by code_simp
  have e: "media_type [] ''A/x.tiff'' = ''image/tiff''"
    by code_simp
  have c1: "media_type [] ''A/x.TIF'' = ''image/tiff''"
    by code_simp
  have c2: "media_type [(''formats'', JArr [JStr ''jpg''])] ''A/x.TIF'' = ''image/jpeg''"
    by code_simp
  from image_media_type[of "[]" "''A/x.tiff''" example_env "''b/''" new_manifest 0 "[]" "''s''", THEN conjunct2, rule_format, OF t]
  have "image_formats (last (m_items (fst (try_canvas example_env ''b/'' (new_manifest, 0, []) ''A/x.tiff'' [] ''s''))))
         = [Some (media_type [] ''A/x.tiff'')]"
    by blast
  with e c1 c2 show ?thesis by (simp only: HOL.simp_thms)
qed

section \<open>The presentation base\<close>



section \<open>A 2xx answer with an error key\<close>



section \<open>Facts about the pattern\<close>


lemma isspace_newline: "isspace (CHR 0x0A)"
  by (simp add: isspace_def whitespace_def)

lemma re_end_iff: "re_end s \<longleftrightarrow> list_all isspace s"
  by (induction s) (auto simp: isspace_newline)

lemma re_path_Some:
  "re_path g0 s = Some g \<Longrightarrow>
     \<exists>x ws3. s = x @ ws3 \<and> g = g0 @ x \<and> x \<noteq> [] \<and> CHR 0x0A \<notin> set x \<and> list_all isspace ws3"
proof (induction s arbitrary: g0)
  case Nil
  then show ?case by simp
next
  case (Cons c cs)
  show ?case
  proof (cases "re_end cs")
    case True
    with Cons.prems have "c \<noteq> CHR 0x0A" "g = g0 @ [c]"
      by (auto split: if_splits)
    with True show ?thesis
      by (intro exI[of _ "[c]"] exI[of _ cs]) (simp add: re_end_iff)
  next
    case False
    with Cons.prems have c: "c \<noteq> CHR 0x0A" and "re_path (g0 @ [c]) cs = Some g"
      by (auto split: if_splits)
    from Cons.IH[OF this(2)] obtain x ws3 where
      "cs = x @ ws3" "g = (g0 @ [c]) @ x" "x \<noteq> []" "CHR 0x0A \<notin> set x" "list_all isspace ws3"
      by blast
    with c show ?thesis
      by (intro exI[of _ "c # x"] exI[of _ ws3]) simp
  qed
qed



lemma re_sep_Some:
  "re_sep s = Some g \<Longrightarrow>
     \<exists>ws ws3. s = ws @ g @ ws3 \<and> list_all isspace ws \<and> g \<noteq> [] \<and> CHR 0x0A \<notin> set g \<and> list_all isspace ws3"
proof (induction s)
  case Nil
  then show ?case by simp
next
  case (Cons c cs)
  have direct: ?case if "re_path [] (c # cs) = Some g"
  proof -
    from re_path_Some[OF that] obtain x ws3 where
      "c # cs = x @ ws3" "g = x" "x \<noteq> []" "CHR 0x0A \<notin> set x" "list_all isspace ws3"
      by auto
    then show ?thesis
      by (intro exI[of _ "[]"] exI[of _ ws3]) simp
  qed
  show ?case
  proof (cases "isspace c \<and> re_sep cs \<noteq> None")
    case True
    with Cons.prems have "re_sep cs = Some g" by auto
    from Cons.IH[OF this] obtain ws ws3 where
      "cs = ws @ g @ ws3" "list_all isspace ws" "g \<noteq> []" "CHR 0x0A \<notin> set g" "list_all isspace ws3"
      by blast
    with True show ?thesis
      by (intro exI[of _ "c # ws"] exI[of _ ws3]) simp
  next
    case False
    with Cons.prems have "re_path [] (c # cs) = Some g"
      by (auto split: if_splits option.splits)
    then show ?thesis by (rule direct)
  qed
qed



lemma re_sep1_Some:
  "re_sep1 s = Some g \<Longrightarrow>
     \<exists>ws ws3. s = ws @ g @ ws3 \<and> ws \<noteq> [] \<and> list_all isspace ws \<and> g \<noteq> []
        \<and> CHR 0x0A \<notin> set g \<and> list_all isspace ws3"
proof (cases s)
  case Nil
  assume "re_sep1 s = Some g"
  with Nil show ?thesis by simp
next
  case (Cons c cs)
  assume "re_sep1 s = Some g"
  with Cons have c: "isspace c" and "re_sep cs = Some g"
    by (auto split: if_splits)
  from re_sep_Some[OF this(2)] obtain ws ws3 where
    "cs = ws @ g @ ws3" "list_all isspace ws" "g \<noteq> []" "CHR 0x0A \<notin> set g" "list_all isspace ws3"
    by blast
  with c Cons show ?thesis
    by (intro exI[of _ "c # ws"] exI[of _ ws3]) simp
qed

lemma re_hex_Some:
  "re_hex s = Some g \<Longrightarrow> \<exists>h r. s = h @ r \<and> list_all ishex h \<and> re_sep1 r = Some g"
proof (induction s)
  case Nil
  then show ?case by simp
next
  case (Cons c cs)
  show ?case
  proof (cases "ishex c \<and> re_hex cs \<noteq> None")
    case True
    with Cons.prems have "re_hex cs = Some g" by auto
    from Cons.IH[OF this] obtain h r where "cs = h @ r" "list_all ishex h" "re_sep1 r = Some g"
      by blast
    with True show ?thesis
      by (intro exI[of _ "c # h"] exI[of _ r]) simp
  next
    case False
    with Cons.prems have "re_sep1 (c # cs) = Some g"
      by (auto split: if_splits option.splits)
    then show ?thesis
      by (intro exI[of _ "[]"] exI[of _ "c # cs"]) simp
  qed
qed



lemma re_hex1_Some:
  "re_hex1 s = Some g \<Longrightarrow> \<exists>h r. s = h @ r \<and> h \<noteq> [] \<and> list_all ishex h \<and> re_sep1 r = Some g"
proof (cases s)
  case Nil
  assume "re_hex1 s = Some g"
  with Nil show ?thesis by simp
next
  case (Cons c cs)
  assume "re_hex1 s = Some g"
  with Cons have c: "ishex c" and "re_hex cs = Some g"
    by (auto split: if_splits)
  from re_hex_Some[OF this(2)] obtain h r where "cs = h @ r" "list_all ishex h" "re_sep1 r = Some g"
    by blast
  with c Cons show ?thesis
    by (intro exI[of _ "c # h"] exI[of _ r]) simp
qed

lemma line_re_match_Some:
  "line_re_match s = Some g \<Longrightarrow> \<exists>w r. s = w @ r \<and> list_all isspace w \<and> re_hex1 r = Some g"
proof (induction s)
  case Nil
  then show ?case by simp
next
  case (Cons c cs)
  show ?case
  proof (cases "isspace c \<and> line_re_match cs \<noteq> None")
    case True
    with Cons.prems have "line_re_match cs = Some g" by auto
    from Cons.IH[OF this] obtain w r where "cs = w @ r" "list_all isspace w" "re_hex1 r = Some g"
      by blast
    with True show ?thesis
      by (intro exI[of _ "c # w"] exI[of _ r]) simp
  next
    case False
    with Cons.prems have "re_hex1 (c # cs) = Some g"
      by (auto split: if_splits option.splits)
    then show ?thesis
      by (intro exI[of _ "[]"] exI[of _ "c # cs"]) simp
  qed
qed



lemma line_re_match_sound: "line_re_match ln = Some g \<Longrightarrow> checksum_line ln g"
proof -
  assume "line_re_match ln = Some g"
  from line_re_match_Some[OF this] obtain ws1 r1 where
    1: "ln = ws1 @ r1" "list_all isspace ws1" "re_hex1 r1 = Some g" by blast
  from re_hex1_Some[OF 1(3)] obtain hex r2 where
    2: "r1 = hex @ r2" "hex \<noteq> []" "list_all ishex hex" "re_sep1 r2 = Some g" by blast
  from re_sep1_Some[OF 2(4)] obtain ws2 ws3 where
    3: "r2 = ws2 @ g @ ws3" "ws2 \<noteq> []" "list_all isspace ws2" "g \<noteq> []"
       "CHR 0x0A \<notin> set g" "list_all isspace ws3" by blast
  from 1 2 3 show ?thesis
    unfolding checksum_line_def by blast
qed



lemma foldl_parse_line:
  "foldl parse_line paths fh =
     paths @ map (\<lambda>ln. case line_re_match ln of Some g \<Rightarrow> g | None \<Rightarrow> strip ln)
               (filter (\<lambda>ln. strip ln \<noteq> []) (map (rstrip_chars [CHR 0x0A]) fh))"
proof (induction fh arbitrary: paths)
  case Nil
  then show ?case by simp
next
  case (Cons ln fh)
  have pl: "parse_line paths ln =
      paths @ (if strip (rstrip_chars [CHR 0x0A] ln) = [] then []
               else [case line_re_match (rstrip_chars [CHR 0x0A] ln) of
                       Some g \<Rightarrow> g | None \<Rightarrow> strip (rstrip_chars [CHR 0x0A] ln)])"
    by (simp add: parse_line_def Let_def split: option.splits)
  show ?case
    by (simp add: Cons.IH pl)
qed

section \<open>The contract of the path parser\<close>



section \<open>Facts about the run\<close>















section \<open>The run and a manifest that cannot be serialized\<close>



section \<open>Facts about the paths that the parser yields\<close>

lemma re_path_last:
  "re_path g0 s = Some g \<Longrightarrow>
     \<exists>x. g = g0 @ x \<and> x \<noteq> [] \<and> hd x = hd s \<and> (\<not> list_all isspace s \<longrightarrow> \<not> isspace (last x))"
proof (induction s arbitrary: g0)
  case Nil
  then show ?case by simp
next
  case (Cons c cs)
  show ?case
  proof (cases "re_end cs")
    case True
    with Cons.prems have "g = g0 @ [c]"
      by (auto split: if_splits)
    with True show ?thesis
      by (intro exI[of _ "[c]"]) (simp add: re_end_iff)
  next
    case False
    with Cons.prems have "re_path (g0 @ [c]) cs = Some g"
      by (auto split: if_splits)
    from Cons.IH[OF this] False obtain x where
      "g = (g0 @ [c]) @ x" "x \<noteq> []" "\<not> isspace (last x)"
      by (auto simp: re_end_iff)
    then show ?thesis
      by (intro exI[of _ "c # x"]) simp
  qed
qed

lemma re_path_None_any: "re_path g0 s = None \<Longrightarrow> re_path g1 s = None"
  by (induction s arbitrary: g0 g1) (auto split: if_splits)

lemma re_sep_fallback: "re_path g0 s \<noteq> None \<Longrightarrow> re_sep s \<noteq> None"
proof (cases s)
  case Nil
  assume "re_path g0 s \<noteq> None"
  with Nil show ?thesis by simp
next
  case (Cons c cs)
  assume "re_path g0 s \<noteq> None"
  then have "re_path [] s \<noteq> None"
    by (metis re_path_None_any)
  with Cons show ?thesis
    by (auto split: option.splits)
qed

lemma re_sep_shape:
  "re_sep s = Some g \<Longrightarrow> length g = 1 \<or> (\<not> isspace (hd g) \<and> \<not> isspace (last g))"
proof (induction s)
  case Nil
  then show ?case by simp
next
  case (Cons c cs)
  show ?case
  proof (cases "isspace c")
    case True
    show ?thesis
    proof (cases "re_sep cs")
      case (Some g')
      with True Cons show ?thesis by simp
    next
      case None
      with True Cons.prems have p: "re_path [] (c # cs) = Some g" by simp
      show ?thesis
      proof (cases "re_end cs")
        case True
        with p show ?thesis by (auto split: if_splits)
      next
        case False
        with p have "re_path [c] cs = Some g" by (auto split: if_splits)
        then have "re_sep cs \<noteq> None" by (intro re_sep_fallback[of "[c]"]) simp
        with None show ?thesis by simp
      qed
    qed
  next
    case False
    with Cons.prems have "re_path [] (c # cs) = Some g" by simp
    from re_path_last[OF this] False show ?thesis by auto
  qed
qed

lemma line_re_match_shape:
  assumes "line_re_match ln = Some g"
  shows "length g = 1 \<or> (\<not> isspace (hd g) \<and> \<not> isspace (last g))"
proof -
  from line_re_match_Some[OF assms] obtain r1 where "re_hex1 r1 = Some g" by blast
  from re_hex1_Some[OF this] obtain r2 where "re_sep1 r2 = Some g" by blast
  then obtain r3 where "re_sep r3 = Some g"
    by (cases r2) (auto split: if_splits)
  then show ?thesis by (rule re_sep_shape)
qed

lemma strip_trimmed:
  "strip s = [] \<or> (\<not> isspace (hd (strip s)) \<and> \<not> isspace (last (strip s)))"
proof (cases "strip s = []")
  case False
  let ?r = "rev (dropWhile isspace (rev s))"
  have s: "strip s = dropWhile isspace ?r"
    by (simp add: strip_def strip_chars_def lstrip_chars_def rstrip_chars_def isspace_def[abs_def])
  from False have h: "\<not> isspace (hd (strip s))"
    unfolding s using hd_dropWhile by blast
  from False s have "?r \<noteq> []" by (metis dropWhile.simps(1))
  then have d: "dropWhile isspace (rev s) \<noteq> []" by simp
  then have "\<not> isspace (hd (dropWhile isspace (rev s)))"
    using hd_dropWhile by blast
  with d have "\<not> isspace (last ?r)"
    by (simp add: last_rev)
  moreover have "last (dropWhile isspace ?r) = last ?r"
    using False unfolding s
    by (metis takeWhile_dropWhile_id last_appendR)
  ultimately show ?thesis using h s by simp
qed simp

lemma strip_id:
  assumes "s \<noteq> []" "\<not> isspace (hd s)" "\<not> isspace (last s)"
  shows "strip s = s"
proof -
  have "dropWhile isspace (rev s) = rev s"
    using assms by (cases "rev s") (auto simp: last_rev[symmetric] hd_rev)
  moreover have "dropWhile isspace s = s"
    using assms by (cases s) auto
  ultimately show ?thesis
    by (simp add: strip_def strip_chars_def lstrip_chars_def rstrip_chars_def isspace_def[abs_def])
qed

lemma parsed_path_shape:
  assumes "p \<in> set (parse_all_manifests fh)"
  shows "length p = 1 \<or> (p \<noteq> [] \<and> \<not> isspace (hd p) \<and> \<not> isspace (last p))"
proof -
  from assms obtain ln where ln: "strip ln \<noteq> []"
    and p: "p = (case line_re_match ln of Some g \<Rightarrow> g | None \<Rightarrow> strip ln)"
    by (auto simp: parse_all_manifests_def foldl_parse_line)
  show ?thesis
  proof (cases "line_re_match ln")
    case None
    with p ln strip_trimmed[of ln] show ?thesis by auto
  next
    case (Some g)
    with p line_re_match_shape[OF Some] line_re_match_sound[OF Some] show ?thesis
      by (auto simp: checksum_line_def)
  qed
qed

lemma doc_key_of_parsed_path:
  assumes "p \<in> set (parse_all_manifests fh)"
  shows "fst (doc_and_filename_from_path p) =
           (let parts = split_on CHR ''/'' p in
            if length parts = 1 then ''root'' else parts ! (length parts - 2))"
proof -
  from parsed_path_shape[OF assms] consider
    c where "p = [c]" "isspace c" | "strip p = p"
  proof (elim disjE)
    assume l: "length p = 1"
    then obtain c where c: "p = [c]" by (cases p) auto
    assume a: "\<And>c. p = [c] \<Longrightarrow> isspace c \<Longrightarrow> thesis" and b: "strip p = p \<Longrightarrow> thesis"
    show thesis
    proof (cases "isspace c")
      case True
      with a c show ?thesis by blast
    next
      case False
      with c have "strip p = p" by (intro strip_id) simp_all
      with b show ?thesis by blast
    qed
  next
    assume "p \<noteq> [] \<and> \<not> isspace (hd p) \<and> \<not> isspace (last p)"
    then have "strip p = p" by (intro strip_id) simp_all
    moreover assume "strip p = p \<Longrightarrow> thesis"
    ultimately show thesis by blast
  qed
  then show ?thesis
  proof cases
    case 1
    then have "c \<noteq> CHR ''/''"
      by (auto simp: isspace_def whitespace_def)
    moreover have "strip [c] = []"
      using 1 by (simp add: strip_def strip_chars_def lstrip_chars_def rstrip_chars_def isspace_def)
    ultimately show ?thesis
      using 1 by (simp add: doc_and_filename_from_path_def)
  next
    case 2
    with doc_key[of p] show ?thesis by simp
  qed
qed

section \<open>The document grouper\<close>

text \<open>
  C6. The document key of a path comes from the segments between its slashes: the literal
  \<open>root\<close> for a single segment, the segment before the last one otherwise, and there
  is always at least one segment. The function trims the path of surrounding whitespace
  first; for every path that the parser yields the segments of the path as it is give
  the same key. The grouping loop collects under a key exactly the paths that have it:
  two paths of the input with the same parent segment are in the same, single group, and
  a rearrangement of the input changes no group as a collection of paths.
\<close>

theorem grouping_by_parent_segment:
  "fst (doc_and_filename_from_path p) =
     (let parts = split_on CHR ''/'' (strip p) in
      if length parts = 1 then ''root'' else parts ! (length parts - 2))
   \<and> length (split_on CHR ''/'' (strip p)) \<ge> 1
   \<and> (p \<in> set (parse_all_manifests fh) \<longrightarrow>
        fst (doc_and_filename_from_path p) =
          (let parts = split_on CHR ''/'' p in
           if length parts = 1 then ''root'' else parts ! (length parts - 2)))
   \<and> (p \<in> set paths \<and> q \<in> set paths
        \<and> fst (doc_and_filename_from_path p) = fst (doc_and_filename_from_path q) \<longrightarrow>
      (\<exists>items. map_of (group_paths paths) (fst (doc_and_filename_from_path p)) = Some items
          \<and> p \<in> set items \<and> q \<in> set items))
   \<and> distinct (map fst (group_paths paths))
   \<and> (mset paths' = mset paths \<longrightarrow>
        map_option mset (map_of (group_paths paths') k) = map_option mset (map_of (group_paths paths) k))"
proof (intro conjI impI)
  show "length (split_on CHR ''/'' (strip p)) \<ge> 1"
    using split_on_nonempty[of "CHR ''/''" "strip p"] by (simp add: Suc_le_eq)
next
  assume "p \<in> set (parse_all_manifests fh)"
  then show "fst (doc_and_filename_from_path p) =
          (let parts = split_on CHR ''/'' p in
           if length parts = 1 then ''root'' else parts ! (length parts - 2))"
    by (rule doc_key_of_parsed_path)
next
  assume "mset paths' = mset paths"
  then have "set paths' = set paths" and "\<And>P. mset (filter P paths') = mset (filter P paths)"
    by (metis set_mset_mset, metis mset_filter)
  then show "map_option mset (map_of (group_paths paths') k) = map_option mset (map_of (group_paths paths) k)"
    by (simp add: map_of_group_paths)
qed (auto simp: doc_key map_of_group_paths distinct_group_paths)

theorem grouping_by_parent_segment_witness:
  "map_of (group_paths [''A/img1.jpg'', ''B/img1.jpg'', ''A/img2.jpg'']) ''A''
     = Some [''A/img1.jpg'', ''A/img2.jpg'']
   \<and> fst (doc_and_filename_from_path ''A/img2.jpg'') = ''A''
   \<and> fst (doc_and_filename_from_path ''img2.jpg'') = ''root''"
proof -
  have parsed: "''A/img2.jpg'' \<in> set (parse_all_manifests [''ab12  A/img2.jpg''])"
    by code_simp
  have parsed': "''img2.jpg'' \<in> set (parse_all_manifests [''img2.jpg''])"
    by code_simp
  have raw: "(let parts = split_on CHR ''/'' ''A/img2.jpg'' in
              if length parts = 1 then ''root'' else parts ! (length parts - 2)) = ''A''"
    by code_simp
  have raw': "(let parts = split_on CHR ''/'' ''img2.jpg'' in
              if length parts = 1 then ''root'' else parts ! (length parts - 2)) = ''root''"
    by code_simp
  note t = grouping_by_parent_segment [of "''A/img2.jpg''" "[''ab12  A/img2.jpg'']"
      "[''A/img1.jpg'', ''B/img1.jpg'', ''A/img2.jpg'']"
      "''A/img1.jpg''" "[''A/img2.jpg'', ''A/img1.jpg'', ''B/img1.jpg'']" "''A''"]
  note t' = grouping_by_parent_segment [of "''img2.jpg''" "[''img2.jpg'']" "[]" "''img2.jpg''" "[]" "''A''"]
  have k: "fst (doc_and_filename_from_path ''A/img2.jpg'') = ''A''"
    using t[THEN conjunct2, THEN conjunct2, THEN conjunct1, rule_format, OF parsed]
    by (simp only: raw)
  have k': "fst (doc_and_filename_from_path ''img2.jpg'') = ''root''"
    using t'[THEN conjunct2, THEN conjunct2, THEN conjunct1, rule_format, OF parsed']
    by (simp only: raw')
  have k1: "fst (doc_and_filename_from_path ''A/img1.jpg'') = ''A''"
    by code_simp
  have mem: "''A/img2.jpg'' \<in> set [''A/img1.jpg'', ''B/img1.jpg'', ''A/img2.jpg'']
       \<and> ''A/img1.jpg'' \<in> set [''A/img1.jpg'', ''B/img1.jpg'', ''A/img2.jpg'']
       \<and> fst (doc_and_filename_from_path ''A/img2.jpg'') = fst (doc_and_filename_from_path ''A/img1.jpg'')"
    by (simp add: k k1)
  from t[THEN conjunct2, THEN conjunct2, THEN conjunct2, THEN conjunct1, rule_format, OF mem]
  obtain items where
    i: "map_of (group_paths [''A/img1.jpg'', ''B/img1.jpg'', ''A/img2.jpg'']) ''A'' = Some items"
    by (auto simp only: k)
  have ms: "mset [''A/img2.jpg'', ''A/img1.jpg'', ''B/img1.jpg''] = mset [''A/img1.jpg'', ''B/img1.jpg'', ''A/img2.jpg'']"
    by (simp add: add_mset_commute)
  have g: "map_of (group_paths [''A/img1.jpg'', ''B/img1.jpg'', ''A/img2.jpg'']) ''A''
     = Some [''A/img1.jpg'', ''A/img2.jpg'']"
    by code_simp
  from t[THEN conjunct2, THEN conjunct2, THEN conjunct2, THEN conjunct2, THEN conjunct2, rule_format, OF ms]
  have "map_option mset (map_of (group_paths [''A/img2.jpg'', ''A/img1.jpg'', ''B/img1.jpg'']) ''A'')
        = map_option mset (map_of (group_paths [''A/img1.jpg'', ''B/img1.jpg'', ''A/img2.jpg'']) ''A'')" .
  with g k k' i show ?thesis by (intro conjI)
qed

end
